theory Spec2Isabelle
  imports Main
begin

section \<open>The configuration notebook \<open>DeepRacer_Configure.ipynb\<close>\<close>

text \<open>
  The notebook is a sequence of code cells run by one Python kernel. Each code cell is
  modelled as a function from the kernel state to an optional uncaught exception and the
  kernel state the cell leaves behind. The cells are numbered by their index in the
  notebook's cell array (the markdown cells in between carry no code).

  Everything the notebook calls outside itself (the SageMaker SDK, the helper
  \<open>misc.get_execution_role\<close>, the shell behind IPython's \<open>!\<close>) is a parameter: the
  record \<open>env\<close> gives what each of these calls does in the run at hand. The kernel
  state keeps a log of the calls issued, in order, next to the variables and the output.
  The output is the list of the writes to the cells' output, in order: text written to
  the standard stream and objects displayed.
\<close>

subsection \<open>Exceptions, values, calls and output\<close>

text \<open>A Python exception: its class name and its message.\<close>

datatype exn = Exn (exn_class: string) (exn_msg: string)

text \<open>The Python values that occur in the configuration mapping of cell 16.\<close>

datatype pyval = PyNone | PyStr string

text \<open>The object returned by \<open>sagemaker.session.Session()\<close>; the notebook reads one attribute.\<close>

record session =
  boto_region_name :: string

text \<open>The object bound to \<open>deepRacer\<close>: it is built from a configuration mapping.\<close>

record engine =
  params :: "(string \<times> pyval) list"

datatype call =
    Call_Session
  | Call_sagemaker_get_execution_role
  | Call_get_execution_role string
  | Call_system string
  | Call_DeepRacerEngine "(string \<times> pyval) list"
  | Delete_simulation_jobs
  | Delete_s3_objects

datatype out = Stdout string | Display_Markdown string

text \<open>
  For a command line, \<open>system\<close> gives the exit status of the shell and the text the
  command writes to its standard streams.
\<close>

record env =
  sagemaker_session_Session :: "exn + session"
  sagemaker_get_execution_role :: "exn + string"
  get_execution_role :: "string \<Rightarrow> exn + string"
  system :: "string \<Rightarrow> int \<times> string"

record kernel =
  sage_session :: "session option"
  aws_region :: "string option"
  sagemaker_role :: "string option"
  deepRacer :: "engine option"
  exit_code :: "int option"
  outputs :: "out list"
  calls :: "call list"

type_synonym cell = "kernel \<Rightarrow> exn option \<times> kernel"

text \<open>
  Running cells in order: the first cell that ends in an uncaught exception stops the run,
  and the cells after it are not executed.
\<close>

fun run_cells :: "cell list \<Rightarrow> kernel \<Rightarrow> exn option \<times> kernel" where
  "run_cells [] k = (None, k)"
| "run_cells (c # cs) k =
     (case c k of
        (Some e, k') \<Rightarrow> (Some e, k')
      | (None, k') \<Rightarrow> run_cells cs k')"

subsection \<open>Cell 5: session and region check\<close>

text \<open>
  \<^verbatim>\<open>
  sage_session = sagemaker.session.Session()
  aws_region = sage_session.boto_region_name
  if aws_region not in ["us-west-2", "us-east-1", "eu-west-1"]:
      raise Exception("This notebook uses RoboMaker which is available only in US East (N. Virginia),"
                      "US West (Oregon) and EU (Ireland). Please switch to one of these regions.")
  \<close>
  The two adjacent string literals are concatenated by Python as they stand, with no
  space after the comma.
\<close>

definition supported_regions :: "string list" where
  "supported_regions = [''us-west-2'', ''us-east-1'', ''eu-west-1'']"

definition region_error :: exn where
  "region_error = Exn ''Exception''
     (''This notebook uses RoboMaker which is available only in US East (N. Virginia),''
      @ ''US West (Oregon) and EU (Ireland). Please switch to one of these regions.'')"

definition check_region :: "string \<Rightarrow> exn + unit" where
  "check_region region =
     (if region \<notin> set supported_regions then Inl region_error else Inr ())"

definition cell_5 :: "env \<Rightarrow> cell" where
  "cell_5 env k =
     (let k0 = k\<lparr>calls := calls k @ [Call_Session]\<rparr> in
      case sagemaker_session_Session env of
        Inl e \<Rightarrow> (Some e, k0)
      | Inr s \<Rightarrow>
          (let k1 = k0\<lparr>sage_session := Some s\<rparr>;
               k2 = k1\<lparr>aws_region := Some (boto_region_name s)\<rparr>
           in case check_region (boto_region_name s) of
                Inl e \<Rightarrow> (Some e, k2)
              | Inr u \<Rightarrow> (None, k2)))"

subsection \<open>Cell 7: role resolution\<close>

text \<open>
  \<^verbatim>\<open>
  try:
      sagemaker_role = sagemaker.get_execution_role()
  except:
      sagemaker_role = get_execution_role('sagemaker')

  print("Using Sagemaker IAM role arn: \n{}".format(sagemaker_role))
  \<close>
  The bare \<open>except:\<close> catches every exception class. \<open>resolve_role\<close> is the
  \<open>try\<close> statement: the value assigned (or the exception that leaves the statement)
  and the calls it made. An exception raised inside the handler leaves the statement; the
  link Python keeps from it to the exception being handled is not modelled.
\<close>

definition resolve_role :: "env \<Rightarrow> (exn + string) \<times> call list" where
  "resolve_role env =
     (case sagemaker_get_execution_role env of
        Inr role \<Rightarrow> (Inr role, [Call_sagemaker_get_execution_role])
      | Inl e \<Rightarrow>
          (get_execution_role env ''sagemaker'',
           [Call_sagemaker_get_execution_role, Call_get_execution_role ''sagemaker'']))"

definition cell_7 :: "env \<Rightarrow> cell" where
  "cell_7 env k =
     (case resolve_role env of
        (Inl e, cs) \<Rightarrow> (Some e, k\<lparr>calls := calls k @ cs\<rparr>)
      | (Inr role, cs) \<Rightarrow>
          (None, k\<lparr>sagemaker_role := Some role,
                   outputs := outputs k @
                     [Stdout (''Using Sagemaker IAM role arn: \<newline>'' @ role @ ''\<newline>'')],
                   calls := calls k @ cs\<rparr>))"

subsection \<open>Cells 10, 12 and 14: the permission instructions\<close>

text \<open>
  \<^verbatim>\<open>
  display(Markdown(generate_help_for_robomaker_trust_relationship(sagemaker_role)))
  display(Markdown(generate_s3_write_permission_for_sagemaker_role(sagemaker_role)))
  display(Markdown(generate_kinesis_create_permission_for_sagemaker_role(sagemaker_role)))
  \<close>
  Each cell reads the variable \<open>sagemaker_role\<close> (a \<open>NameError\<close> when cell 7 never
  bound it), passes it to one generator and displays the returned Markdown text. The
  three generators come from the module \<open>markdown_helper\<close>, which is not among the
  sources: they are parameters, each giving for a role identifier the text it returns or
  the exception it raises.
\<close>

record markdown_helper =
  generate_help_for_robomaker_trust_relationship :: "string \<Rightarrow> exn + string"
  generate_s3_write_permission_for_sagemaker_role :: "string \<Rightarrow> exn + string"
  generate_kinesis_create_permission_for_sagemaker_role :: "string \<Rightarrow> exn + string"

definition display_Markdown :: "(string \<Rightarrow> exn + string) \<Rightarrow> cell" where
  "display_Markdown generate k =
     (case sagemaker_role k of
        None \<Rightarrow> (Some (Exn ''NameError'' ''name 'sagemaker_role' is not defined''), k)
      | Some role \<Rightarrow>
          (case generate role of
             Inl e \<Rightarrow> (Some e, k)
           | Inr text \<Rightarrow> (None, k\<lparr>outputs := outputs k @ [Display_Markdown text]\<rparr>)))"

definition cell_10 :: "markdown_helper \<Rightarrow> cell" where
  "cell_10 helper = display_Markdown (generate_help_for_robomaker_trust_relationship helper)"

definition cell_12 :: "markdown_helper \<Rightarrow> cell" where
  "cell_12 helper = display_Markdown (generate_s3_write_permission_for_sagemaker_role helper)"

definition cell_14 :: "markdown_helper \<Rightarrow> cell" where
  "cell_14 helper = display_Markdown (generate_kinesis_create_permission_for_sagemaker_role helper)"

subsection \<open>Cells 16, 18 and 22: the engine and its cleanup methods\<close>

text \<open>
  \<^verbatim>\<open>
  # Instantiate the DeepRacerEngine, the Jb named specified here will not be used for the Simulation Job Names
  deepRacer = DeepRacerEngine({'job_name':'None'})
  \<close>
  The constructor is a parameter of the cell: it takes the configuration mapping and the
  kernel state, and returns the object or raises.
\<close>

definition cell_16_config :: "(string \<times> pyval) list" where
  "cell_16_config = [(''job_name'', PyStr ''None'')]"

definition cell_16 :: "((string \<times> pyval) list \<Rightarrow> kernel \<Rightarrow> (exn + engine) \<times> kernel) \<Rightarrow> cell" where
  "cell_16 constructor k =
     (case constructor cell_16_config (k\<lparr>calls := calls k @ [Call_DeepRacerEngine cell_16_config]\<rparr>) of
        (Inl e, k') \<Rightarrow> (Some e, k')
      | (Inr d, k') \<Rightarrow> (None, k'\<lparr>deepRacer := Some d\<rparr>))"

text \<open>
  Cells 18 and 22 hold one comment line each, \<^verbatim>\<open># deepRacer.delete_all_simulations()\<close>
  and \<^verbatim>\<open># deepRacer.delete_s3_simulation_resources()\<close>: running them does nothing.
\<close>

definition cell_18 :: cell where
  "cell_18 k = (None, k)"

definition cell_22 :: cell where
  "cell_22 k = (None, k)"

text \<open>
  Modelled from the spec: the class \<open>DeepRacerEngine\<close> (imported from
  \<open>src.core.DeepRacerEngine\<close>) is not among the sources. By the spec its constructor
  accepts a configuration mapping with the key \<open>job_name\<close>, does not raise on the
  notebook's mapping and deletes nothing; the two cleanup methods take no argument,
  return nothing and issue delete requests against the simulation jobs and the storage
  objects. The banner is the output the notebook records for cell 16.
\<close>

definition DeepRacerEngine :: "(string \<times> pyval) list \<Rightarrow> kernel \<Rightarrow> (exn + engine) \<times> kernel" where
  "DeepRacerEngine ps k =
     (Inr \<lparr>params = ps\<rparr>,
      k\<lparr>outputs := outputs k @ [Stdout ''***Deep Racer Engine Backend***\<newline>'']\<rparr>)"

definition delete_all_simulations :: "engine \<Rightarrow> cell" where
  "delete_all_simulations d k = (None, k\<lparr>calls := calls k @ [Delete_simulation_jobs]\<rparr>)"

definition delete_s3_simulation_resources :: "engine \<Rightarrow> cell" where
  "delete_s3_simulation_resources d k = (None, k\<lparr>calls := calls k @ [Delete_s3_objects]\<rparr>)"

text \<open>A cell that does invoke a method on the object bound to \<open>deepRacer\<close>.\<close>

definition invoke :: "(engine \<Rightarrow> cell) \<Rightarrow> cell" where
  "invoke method k =
     (case deepRacer k of
        None \<Rightarrow> (Some (Exn ''NameError'' ''name 'deepRacer' is not defined''), k)
      | Some d \<Rightarrow> method d k)"

subsection \<open>Cell 20: container cleanup\<close>

text \<open>
  \<^verbatim>\<open>
  !docker rm -f $(docker ps -a -q);
  !docker rmi -f $(docker images -q);
  \<close>
  IPython hands the text after \<open>!\<close> to the system shell, shows what the command writes
  on the cell's output stream, stores the exit status in \<open>_exit_code\<close> and goes on to
  the next line; it raises nothing when the status is not zero.
\<close>

definition docker_rm_line :: string where
  "docker_rm_line = ''docker rm -f $(docker ps -a -q);''"

definition docker_rmi_line :: string where
  "docker_rmi_line = ''docker rmi -f $(docker images -q);''"

definition stream :: "string \<Rightarrow> out list" where
  "stream text = (if text = [] then [] else [Stdout text])"

definition bang :: "env \<Rightarrow> string \<Rightarrow> kernel \<Rightarrow> kernel" where
  "bang env line k =
     k\<lparr>exit_code := Some (fst (system env line)),
       outputs := outputs k @ stream (snd (system env line)),
       calls := calls k @ [Call_system line]\<rparr>"

definition cell_20 :: "env \<Rightarrow> cell" where
  "cell_20 env k =
     (let k1 = bang env docker_rm_line k;
          k2 = bang env docker_rmi_line k1
      in (None, k2))"

text \<open>
  The words of a command line, read off its text. The two lines use blanks between
  words, \<open>$(\<close> and \<open>)\<close> around a command whose output is substituted, and \<open>;\<close> as the
  terminator; the lexer knows these and nothing else of the shell's syntax. The first
  argument of \<open>tokens\<close> is the word read so far.
\<close>

datatype token = Word string | Subst_open | Subst_close | Semicolon

definition flush :: "string \<Rightarrow> token list" where
  "flush w = (if w = [] then [] else [Word w])"

fun tokens :: "string \<Rightarrow> string \<Rightarrow> token list" where
  "tokens w [] = flush w"
| "tokens w (c # cs) =
     (if c = CHR '' '' then flush w @ tokens [] cs
      else if c = CHR '';'' then flush w @ Semicolon # tokens [] cs
      else if c = CHR '')'' then flush w @ Subst_close # tokens [] cs
      else if c = CHR ''('' \<and> w = ''$'' then Subst_open # tokens [] cs
      else tokens (w @ [c]) cs)"

text \<open>
  The words outside (\<open>want = False\<close>) or inside (\<open>want = True\<close>) a substitution; the
  second argument tells whether the tokens at hand are inside one.
\<close>

fun words_at :: "bool \<Rightarrow> bool \<Rightarrow> token list \<Rightarrow> string list" where
  "words_at want inside [] = []"
| "words_at want inside (Word w # ts) =
     (if inside = want then w # words_at want inside ts else words_at want inside ts)"
| "words_at want inside (Subst_open # ts) = words_at want True ts"
| "words_at want inside (Subst_close # ts) = words_at want False ts"
| "words_at want inside (Semicolon # ts) = words_at want inside ts"

definition command_words :: "string \<Rightarrow> string list" where
  "command_words line = words_at False False (tokens [] line)"

definition substituted_words :: "string \<Rightarrow> string list" where
  "substituted_words line = words_at True False (tokens [] line)"

text \<open>A flag is a word that begins with a dash.\<close>

definition is_flag :: "string \<Rightarrow> bool" where
  "is_flag w = (take 1 w = ''-'')"

definition flags :: "string \<Rightarrow> string list" where
  "flags line = filter is_flag (command_words line) @ filter is_flag (substituted_words line)"

subsection \<open>The code cells in order\<close>

text \<open>
  The code cells of the notebook from cell 5 on, the engine's constructor filled in; cell
  3 holds the imports only and is left out.
\<close>

definition notebook :: "env \<Rightarrow> markdown_helper \<Rightarrow> cell list" where
  "notebook env helper =
     [cell_5 env, cell_7 env, cell_10 helper, cell_12 helper, cell_14 helper,
      cell_16 DeepRacerEngine, cell_18, cell_20 env, cell_22]"

subsection \<open>Example environments\<close>

definition kernel0 :: kernel where
  "kernel0 = \<lparr>sage_session = None, aws_region = None, sagemaker_role = None,
     deepRacer = None, exit_code = None, outputs = [], calls = []\<rparr>"

definition env_in :: "string \<Rightarrow> env" where
  "env_in region =
     \<lparr>sagemaker_session_Session = Inr \<lparr>boto_region_name = region\<rparr>,
      sagemaker_get_execution_role = Inr ''arn:aws:iam::1:role/service-role/nb'',
      get_execution_role = (\<lambda>name. Inr (''arn:aws:iam::1:role/'' @ name)),
      system = (\<lambda>line. (0, []))\<rparr>"

text \<open>
  A machine outside SageMaker: the SDK call fails and the helper creates the role. And
  one where the helper fails as well.
\<close>

definition env_local :: env where
  "env_local =
     \<lparr>sagemaker_session_Session = Inr \<lparr>boto_region_name = ''us-east-1''\<rparr>,
      sagemaker_get_execution_role =
        Inl (Exn ''ValueError'' ''The current AWS identity is not a role''),
      get_execution_role = (\<lambda>name. Inr (''arn:aws:iam::1:role/'' @ name)),
      system = (\<lambda>line. (1, ''Cannot connect to the Docker daemon\<newline>''))\<rparr>"

definition env_broken :: env where
  "env_broken =
     \<lparr>sagemaker_session_Session = Inr \<lparr>boto_region_name = ''us-east-1''\<rparr>,
      sagemaker_get_execution_role =
        Inl (Exn ''ValueError'' ''The current AWS identity is not a role''),
      get_execution_role = (\<lambda>name. Inl (Exn ''ClientError'' ''AccessDenied'')),
      system = (\<lambda>line. (1, ''Cannot connect to the Docker daemon\<newline>''))\<rparr>"

text \<open>A container runtime with one stopped container and one image, and a helper module.\<close>

definition env_docker :: env where
  "env_docker =
     \<lparr>sagemaker_session_Session = Inr \<lparr>boto_region_name = ''us-east-1''\<rparr>,
      sagemaker_get_execution_role = Inr ''arn:aws:iam::1:role/service-role/nb'',
      get_execution_role = (\<lambda>name. Inr (''arn:aws:iam::1:role/'' @ name)),
      system = (\<lambda>line. if line = ''docker rm -f $(docker ps -a -q);''
                        then (0, ''13c58ab56e75\<newline>'')
                        else (0, ''Untagged: sagemaker-docker-cpu:latest\<newline>''))\<rparr>"

definition helper_plain :: markdown_helper where
  "helper_plain =
     \<lparr>generate_help_for_robomaker_trust_relationship = (\<lambda>role. Inr ''trust relationship''),
      generate_s3_write_permission_for_sagemaker_role = (\<lambda>role. Inr ''s3 write''),
      generate_kinesis_create_permission_for_sagemaker_role = (\<lambda>role. Inr ''kinesis create'')\<rparr>"

section \<open>Region check\<close>

text \<open>
  C7. For each of the three allow-listed regions, \<open>us-west-2\<close>, \<open>us-east-1\<close> and
  \<open>eu-west-1\<close>, the region check passes without raising, cell 5 ends without an
  exception, and the run continues with the cells that follow.
\<close>

theorem supported_region_passes:
  assumes "sagemaker_session_Session env = Inr s"
    and "boto_region_name s \<in> {''us-west-2'', ''us-east-1'', ''eu-west-1''}"
  shows "check_region (boto_region_name s) = Inr ()
       \<and> fst (cell_5 env k) = None
       \<and> run_cells (cell_5 env # rest) k = run_cells rest (snd (cell_5 env k))"
  using assms by (auto simp: check_region_def supported_regions_def cell_5_def Let_def)

theorem supported_region_passes_witness:
  "fst (cell_5 (env_in ''us-west-2'') kernel0) = None
   \<and> fst (cell_5 (env_in ''us-east-1'') kernel0) = None
   \<and> fst (cell_5 (env_in ''eu-west-1'') kernel0) = None
   \<and> calls (snd (run_cells [cell_5 (env_in ''eu-west-1''), cell_7 (env_in ''eu-west-1'')] kernel0))
       = [Call_Session, Call_sagemaker_get_execution_role]"
proof -
  have a: "fst (cell_5 (env_in ''us-west-2'') kernel0) = None"
    using supported_region_passes
      [of "env_in ''us-west-2''" "\<lparr>boto_region_name = ''us-west-2''\<rparr>" kernel0 "[]"]
    by (simp add: env_in_def)
  have b: "fst (cell_5 (env_in ''us-east-1'') kernel0) = None"
    using supported_region_passes
      [of "env_in ''us-east-1''" "\<lparr>boto_region_name = ''us-east-1''\<rparr>" kernel0 "[]"]
    by (simp add: env_in_def)
  have c: "fst (cell_5 (env_in ''eu-west-1'') kernel0) = None
         \<and> run_cells [cell_5 (env_in ''eu-west-1''), cell_7 (env_in ''eu-west-1'')] kernel0
           = run_cells [cell_7 (env_in ''eu-west-1'')] (snd (cell_5 (env_in ''eu-west-1'') kernel0))"
    using supported_region_passes
      [of "env_in ''eu-west-1''" "\<lparr>boto_region_name = ''eu-west-1''\<rparr>" kernel0
          "[cell_7 (env_in ''eu-west-1'')]"]
    by (simp add: env_in_def)
  have d: "calls (snd (run_cells [cell_7 (env_in ''eu-west-1'')]
             (snd (cell_5 (env_in ''eu-west-1'') kernel0))))
           = [Call_Session, Call_sagemaker_get_execution_role]"
    by (simp add: cell_5_def cell_7_def resolve_role_def env_in_def kernel0_def
        check_region_def supported_regions_def Let_def)
  show ?thesis using a b c d by simp
qed

text \<open>
  C1. For every region string outside \<open>us-west-2\<close>, \<open>us-east-1\<close>, \<open>eu-west-1\<close> the
  region check raises an exception with one fixed message. The check itself changes
  nothing: cell 5 leaves the kernel as the two assignments before the check made it.
  The run stops there: whatever cells follow (role resolution first among them) are not
  executed, and no role-retrieval call is issued.
\<close>

theorem unsupported_region_raises:
  assumes "sagemaker_session_Session env = Inr s"
    and "boto_region_name s \<notin> {''us-west-2'', ''us-east-1'', ''eu-west-1''}"
  shows "check_region (boto_region_name s) =
           Inl (Exn ''Exception'' ''This notebook uses RoboMaker which is available only in US East (N. Virginia),US West (Oregon) and EU (Ireland). Please switch to one of these regions.'')
       \<and> cell_5 env k =
           (Some region_error,
            k\<lparr>sage_session := Some s, aws_region := Some (boto_region_name s),
              calls := calls k @ [Call_Session]\<rparr>)
       \<and> run_cells (cell_5 env # rest) k = cell_5 env k
       \<and> run_cells (cell_5 env # cell_7 env # rest) k = cell_5 env k"
  using assms by (simp add: check_region_def supported_regions_def region_error_def cell_5_def Let_def)

theorem unsupported_region_raises_witness:
  "check_region ''ap-south-1'' = Inl region_error
   \<and> run_cells [cell_5 (env_in ''ap-south-1''), cell_7 (env_in ''ap-south-1'')] kernel0
       = (Some region_error,
          kernel0\<lparr>sage_session := Some \<lparr>boto_region_name = ''ap-south-1''\<rparr>,
                  aws_region := Some ''ap-south-1'', calls := [Call_Session]\<rparr>)"
  using unsupported_region_raises
    [of "env_in ''ap-south-1''" "\<lparr>boto_region_name = ''ap-south-1''\<rparr>" kernel0 "[]"]
  by (simp add: env_in_def kernel0_def region_error_def)

section \<open>Role resolution\<close>

text \<open>
  C2. Role resolution returns the result of \<open>sagemaker.get_execution_role()\<close> whenever
  that call succeeds, and the result of \<open>get_execution_role('sagemaker')\<close> whenever it
  raises, whatever the exception; the variable \<open>sagemaker_role\<close> is bound accordingly.
\<close>

theorem resolve_role_primary_or_fallback:
  "(sagemaker_get_execution_role env = Inr role \<longrightarrow>
      fst (resolve_role env) = Inr role
      \<and> fst (cell_7 env k) = None
      \<and> sagemaker_role (snd (cell_7 env k)) = Some role)
   \<and> (sagemaker_get_execution_role env = Inl e \<longrightarrow>
        fst (resolve_role env) = get_execution_role env ''sagemaker'')
   \<and> (sagemaker_get_execution_role env = Inl e
        \<and> get_execution_role env ''sagemaker'' = Inr role' \<longrightarrow>
        fst (cell_7 env k) = None
        \<and> sagemaker_role (snd (cell_7 env k)) = Some role')"
  by (simp add: resolve_role_def cell_7_def)

theorem resolve_role_primary_or_fallback_witness:
  "fst (resolve_role (env_in ''us-east-1'')) = Inr ''arn:aws:iam::1:role/service-role/nb''
   \<and> sagemaker_role (snd (cell_7 (env_in ''us-east-1'') kernel0))
       = Some ''arn:aws:iam::1:role/service-role/nb''
   \<and> fst (resolve_role env_local) = Inr ''arn:aws:iam::1:role/sagemaker''
   \<and> sagemaker_role (snd (cell_7 env_local kernel0)) = Some ''arn:aws:iam::1:role/sagemaker''"
  using resolve_role_primary_or_fallback
      [of "env_in ''us-east-1''" "''arn:aws:iam::1:role/service-role/nb''" kernel0]
    resolve_role_primary_or_fallback
      [of env_local _ kernel0 "Exn ''ValueError'' ''The current AWS identity is not a role''"
          "''arn:aws:iam::1:role/sagemaker''"]
  by (simp add: env_in_def env_local_def)

text \<open>
  C10. When \<open>sagemaker.get_execution_role()\<close> returns without raising, the fallback
  \<open>get_execution_role('sagemaker')\<close> is not called: the only call issued is the primary
  one, and the outcome of the cell is the same whatever the fallback would have done.
\<close>

theorem primary_success_skips_fallback:
  assumes "sagemaker_get_execution_role env = Inr role"
  shows "snd (resolve_role env) = [Call_sagemaker_get_execution_role]
       \<and> calls (snd (cell_7 env k)) = calls k @ [Call_sagemaker_get_execution_role]
       \<and> cell_7 (env\<lparr>get_execution_role := f\<rparr>) k = cell_7 env k"
  using assms by (simp add: resolve_role_def cell_7_def)

theorem primary_success_skips_fallback_witness:
  "calls (snd (cell_7 (env_in ''us-east-1'') kernel0)) = [Call_sagemaker_get_execution_role]
   \<and> cell_7 ((env_in ''us-east-1'')\<lparr>get_execution_role := (\<lambda>name. Inl (Exn ''ClientError'' name))\<rparr>)
        kernel0
      = cell_7 (env_in ''us-east-1'') kernel0"
  using primary_success_skips_fallback
      [of "env_in ''us-east-1''" "''arn:aws:iam::1:role/service-role/nb''" kernel0
          "\<lambda>name. Inl (Exn ''ClientError'' name)"]
  by (simp add: env_in_def kernel0_def)

text \<open>
  C4. When the primary call raises, the fallback is taken whatever the exception is: the
  outcome of the cell is the same for any two exceptions of the primary call, so their
  kind is not told apart and nothing of the original failure reaches the output. The
  fallback call is unguarded: when it raises too, its own exception leaves the cell, the
  original one is not raised again, and nothing is printed.
\<close>

theorem fallback_on_any_exception_unguarded:
  assumes "sagemaker_get_execution_role env = Inl e"
  shows "cell_7 (env\<lparr>sagemaker_get_execution_role := Inl e'\<rparr>) k = cell_7 env k
       \<and> snd (resolve_role env)
           = [Call_sagemaker_get_execution_role, Call_get_execution_role ''sagemaker'']
       \<and> (get_execution_role env ''sagemaker'' = Inr role \<longrightarrow>
            outputs (snd (cell_7 env k))
              = outputs k @ [Stdout (''Using Sagemaker IAM role arn: \<newline>'' @ role @ ''\<newline>'')])
       \<and> (get_execution_role env ''sagemaker'' = Inl e2 \<longrightarrow>
            cell_7 env k
              = (Some e2,
                 k\<lparr>calls := calls k @ [Call_sagemaker_get_execution_role,
                                        Call_get_execution_role ''sagemaker'']\<rparr>))"
  using assms by (simp add: resolve_role_def cell_7_def)

theorem fallback_on_any_exception_unguarded_witness:
  "cell_7 (env_local\<lparr>sagemaker_get_execution_role := Inl (Exn ''KeyboardInterrupt'' [])\<rparr>) kernel0
     = cell_7 env_local kernel0
   \<and> outputs (snd (cell_7 env_local kernel0))
       = [Stdout ''Using Sagemaker IAM role arn: \<newline>arn:aws:iam::1:role/sagemaker\<newline>'']
   \<and> fst (cell_7 env_broken kernel0) = Some (Exn ''ClientError'' ''AccessDenied'')
   \<and> outputs (snd (cell_7 env_broken kernel0)) = []"
  using fallback_on_any_exception_unguarded
      [of env_local "Exn ''ValueError'' ''The current AWS identity is not a role''"
          "Exn ''KeyboardInterrupt'' []" kernel0 "''arn:aws:iam::1:role/sagemaker''"]
    fallback_on_any_exception_unguarded
      [of env_broken "Exn ''ValueError'' ''The current AWS identity is not a role''"
          _ kernel0 _ "Exn ''ClientError'' ''AccessDenied''"]
  by (simp add: env_local_def env_broken_def kernel0_def)

section \<open>Container cleanup\<close>

lemma tokens_docker_rm:
  "tokens [] ''docker rm -f $(docker ps -a -q);'' =
     [Word ''docker'', Word ''rm'', Word ''-f'', Subst_open,
      Word ''docker'', Word ''ps'', Word ''-a'', Word ''-q'', Subst_close, Semicolon]"
  by (simp add: flush_def)

lemma tokens_docker_rmi:
  "tokens [] ''docker rmi -f $(docker images -q);'' =
     [Word ''docker'', Word ''rmi'', Word ''-f'', Subst_open,
      Word ''docker'', Word ''images'', Word ''-q'', Subst_close, Semicolon]"
  by (simp add: flush_def)

text \<open>
  C3, as the spec states it: the two shell invocations of cell 20 carry no flags. Both
  do: each removal is forced with \<open>-f\<close>, and the substituted listings carry \<open>-a -q\<close>
  and \<open>-q\<close>.
\<close>

theorem docker_cleanup_no_flags_counterexample:
  "\<not> (flags docker_rm_line = [] \<and> flags docker_rmi_line = [])"
  by (simp add: flags_def command_words_def substituted_words_def docker_rm_line_def
      docker_rmi_line_def flush_def is_flag_def)

text \<open>
  C3, amended: cell 20 issues the two command lines
  \<^verbatim>\<open>docker rm -f $(docker ps -a -q);\<close> and \<^verbatim>\<open>docker rmi -f $(docker images -q);\<close>, in
  this order: a forced removal (\<open>-f\<close>) of every container that \<open>docker ps -a -q\<close> lists
  and a forced removal (\<open>-f\<close>) of every image that \<open>docker images -q\<close> lists. There is
  no error handling: whatever exit status the shell returns, the second line is issued
  after the first and the cell ends without an exception; what the two commands write
  goes to the cell's output, and the exit status of the last one is all that is kept.
\<close>

theorem docker_cleanup_forced_unchecked:
  "docker_rm_line = ''docker rm -f $(docker ps -a -q);''
   \<and> docker_rmi_line = ''docker rmi -f $(docker images -q);''
   \<and> command_words docker_rm_line = [''docker'', ''rm'', ''-f'']
   \<and> substituted_words docker_rm_line = [''docker'', ''ps'', ''-a'', ''-q'']
   \<and> command_words docker_rmi_line = [''docker'', ''rmi'', ''-f'']
   \<and> substituted_words docker_rmi_line = [''docker'', ''images'', ''-q'']
   \<and> flags docker_rm_line = [''-f'', ''-a'', ''-q'']
   \<and> flags docker_rmi_line = [''-f'', ''-q'']
   \<and> cell_20 env k =
       (None,
        k\<lparr>exit_code := Some (fst (system env ''docker rmi -f $(docker images -q);'')),
          outputs := outputs k
            @ stream (snd (system env ''docker rm -f $(docker ps -a -q);''))
            @ stream (snd (system env ''docker rmi -f $(docker images -q);'')),
          calls := calls k @ [Call_system ''docker rm -f $(docker ps -a -q);'',
                              Call_system ''docker rmi -f $(docker images -q);'']\<rparr>)"
  by (simp add: flags_def command_words_def substituted_words_def docker_rm_line_def
      docker_rmi_line_def flush_def is_flag_def cell_20_def bang_def)

lemma cell_20_example:
  "cell_20 env_docker kernel0 =
     (None,
      kernel0\<lparr>exit_code := Some 0,
        outputs := [Stdout ''13c58ab56e75\<newline>'',
                    Stdout ''Untagged: sagemaker-docker-cpu:latest\<newline>''],
        calls := [Call_system ''docker rm -f $(docker ps -a -q);'',
                  Call_system ''docker rmi -f $(docker images -q);'']\<rparr>)
   \<and> fst (cell_20 env_local kernel0) = None
   \<and> exit_code (snd (cell_20 env_local kernel0)) = Some 1
   \<and> calls (snd (cell_20 env_local kernel0))
       = [Call_system ''docker rm -f $(docker ps -a -q);'',
          Call_system ''docker rmi -f $(docker images -q);'']"
  by (simp add: cell_20_def bang_def stream_def docker_rm_line_def docker_rmi_line_def
      env_docker_def env_local_def kernel0_def)

section \<open>Engine construction\<close>

text \<open>
  C9. The configuration mapping that cell 16 passes to the constructor binds the key
  \<open>job_name\<close> to the string of the four characters \<open>None\<close>, not to the null value:
  whatever the constructor is, it is applied to this mapping.
\<close>

theorem cell_16_job_name_is_string:
  "map_of cell_16_config ''job_name'' = Some (PyStr ''None'')
   \<and> map_of cell_16_config ''job_name'' \<noteq> Some PyNone
   \<and> map_of cell_16_config ''job_name'' = Some (PyStr [CHR ''N'', CHR ''o'', CHR ''n'', CHR ''e''])
   \<and> cell_16 constructor k =
       (case constructor [(''job_name'', PyStr ''None'')]
               (k\<lparr>calls := calls k @ [Call_DeepRacerEngine [(''job_name'', PyStr ''None'')]]\<rparr>) of
          (Inl e, k') \<Rightarrow> (Some e, k')
        | (Inr d, k') \<Rightarrow> (None, k'\<lparr>deepRacer := Some d\<rparr>))"
  by (simp add: cell_16_config_def cell_16_def)

text \<open>
  C5. Constructing the engine with the mapping \<open>{'job_name': 'None'}\<close> does not raise
  and issues no delete request: cell 16 prints the banner and binds \<open>deepRacer\<close>, and
  the cells 18 and 22, whose method calls are commented out, add nothing. A delete
  request is issued only when \<open>delete_all_simulations\<close> or
  \<open>delete_s3_simulation_resources\<close> is invoked on the object afterwards.
\<close>

theorem engine_construction_deletes_nothing:
  "cell_16 DeepRacerEngine k =
     (None,
      k\<lparr>deepRacer := Some \<lparr>params = [(''job_name'', PyStr ''None'')]\<rparr>,
        outputs := outputs k @ [Stdout ''***Deep Racer Engine Backend***\<newline>''],
        calls := calls k @ [Call_DeepRacerEngine [(''job_name'', PyStr ''None'')]]\<rparr>)
   \<and> run_cells [cell_16 DeepRacerEngine, cell_18, cell_22] k = cell_16 DeepRacerEngine k
   \<and> calls (snd (run_cells [cell_16 DeepRacerEngine, invoke delete_all_simulations] k))
       = calls k @ [Call_DeepRacerEngine [(''job_name'', PyStr ''None'')], Delete_simulation_jobs]
   \<and> calls (snd (run_cells [cell_16 DeepRacerEngine, invoke delete_s3_simulation_resources] k))
       = calls k @ [Call_DeepRacerEngine [(''job_name'', PyStr ''None'')], Delete_s3_objects]"
  by (simp add: cell_16_def cell_16_config_def DeepRacerEngine_def cell_18_def cell_22_def
      invoke_def delete_all_simulations_def delete_s3_simulation_resources_def)

section \<open>A run of the whole notebook\<close>

text \<open>
  In a supported region, on a SageMaker notebook instance and from a fresh kernel, the
  code cells run to the end; the calls issued are the session, the role retrieval, the
  engine construction and the two shell lines, and the output holds what each cell wrote.
\<close>

lemma notebook_run_example:
  "fst (run_cells (notebook env_docker helper_plain) kernel0) = None
   \<and> calls (snd (run_cells (notebook env_docker helper_plain) kernel0))
       = [Call_Session, Call_sagemaker_get_execution_role,
          Call_DeepRacerEngine [(''job_name'', PyStr ''None'')],
          Call_system ''docker rm -f $(docker ps -a -q);'',
          Call_system ''docker rmi -f $(docker images -q);'']
   \<and> outputs (snd (run_cells (notebook env_docker helper_plain) kernel0))
       = [Stdout ''Using Sagemaker IAM role arn: \<newline>arn:aws:iam::1:role/service-role/nb\<newline>'',
          Display_Markdown ''trust relationship'', Display_Markdown ''s3 write'',
          Display_Markdown ''kinesis create'',
          Stdout ''***Deep Racer Engine Backend***\<newline>'',
          Stdout ''13c58ab56e75\<newline>'',
          Stdout ''Untagged: sagemaker-docker-cpu:latest\<newline>'']"
  by (simp add: notebook_def env_docker_def helper_plain_def kernel0_def cell_5_def
      check_region_def supported_regions_def cell_7_def resolve_role_def cell_10_def
      cell_12_def cell_14_def display_Markdown_def cell_16_def cell_16_config_def
      DeepRacerEngine_def cell_18_def cell_20_def bang_def stream_def docker_rm_line_def
      docker_rmi_line_def cell_22_def Let_def)

end
